theory Spec2Isabelle
  imports Main
begin

section \<open>Characters and strings of the source language\<close>

text \<open>
  The program works on Python \<open>str\<close> values. The model covers the texts whose code
  points are below 256: a character is a \<^typ>\<open>char\<close> read as its code point, a text is
  a \<^typ>\<open>string\<close>. On this range the predicates below are the ones Python's \<open>re\<close>
  and \<open>str\<close> use: \<open>\s\<close> and \<open>str.strip\<close> (white space), \<open>\d\<close> (decimal digits),
  \<open>\w\<close> (alphanumerics and the underscore, for \<open>\b\<close>) and the simple lower-case
  mapping that \<open>re.IGNORECASE\<close> compares with.
\<close>

definition code :: "char \<Rightarrow> nat" where
  "code c = of_char c"

definition is_space :: "char \<Rightarrow> bool" where
  "is_space c = (let n = code c in (9 \<le> n \<and> n \<le> 13) \<or> (28 \<le> n \<and> n \<le> 32) \<or> n = 133 \<or> n = 160)"

definition is_digit :: "char \<Rightarrow> bool" where
  "is_digit c = (let n = code c in 48 \<le> n \<and> n \<le> 57)"

definition is_upper :: "char \<Rightarrow> bool" where
  "is_upper c = (let n = code c in (65 \<le> n \<and> n \<le> 90) \<or> (192 \<le> n \<and> n \<le> 222 \<and> n \<noteq> 215))"

definition lower :: "char \<Rightarrow> char" where
  "lower c = (if is_upper c then char_of (code c + 32) else c)"

definition is_word :: "char \<Rightarrow> bool" where
  "is_word c = (let n = code c in
     (48 \<le> n \<and> n \<le> 57) \<or> (65 \<le> n \<and> n \<le> 90) \<or> n = 95 \<or> (97 \<le> n \<and> n \<le> 122) \<or>
     n = 170 \<or> n = 178 \<or> n = 179 \<or> n = 181 \<or> n = 185 \<or> n = 186 \<or>
     (188 \<le> n \<and> n \<le> 190) \<or> (192 \<le> n \<and> n \<le> 214) \<or> (216 \<le> n \<and> n \<le> 246) \<or>
     (248 \<le> n \<and> n \<le> 255))"

text \<open>
  The same predicates on the bits of a character, for evaluation: a character is
  \<open>Char b0 \<dots> b7\<close> with \<open>b0\<close> the lowest bit.
\<close>

lemma is_space_code [code]:
  "is_space (Char b0 b1 b2 b3 b4 b5 b6 b7) =
     (\<not> b6 \<and> (if b5 then \<not> b4 \<and> \<not> b3 \<and> \<not> b2 \<and> \<not> b1 \<and> \<not> b0
               else if b7 then \<not> b4 \<and> \<not> b3 \<and> b2 \<and> \<not> b1 \<and> b0
               else if b4 then b3 \<and> b2
               else b3 \<and> (if b2 then \<not> b1 else b1 \<or> b0)))"
  by (cases b0; cases b1; cases b2; cases b3; cases b4; cases b5; cases b6; cases b7;
      simp add: is_space_def code_def)

lemma is_digit_code [code]:
  "is_digit (Char b0 b1 b2 b3 b4 b5 b6 b7) =
     (\<not> b7 \<and> \<not> b6 \<and> b5 \<and> b4 \<and> (\<not> b3 \<or> (\<not> b2 \<and> \<not> b1)))"
  by (cases b0; cases b1; cases b2; cases b3; cases b4; cases b5; cases b6; cases b7;
      simp add: is_digit_def code_def)

lemma is_upper_code [code]:
  "is_upper (Char b0 b1 b2 b3 b4 b5 b6 b7) =
     (b6 \<and> \<not> b5 \<and>
      (if b7 then \<not> (b4 \<and> b2 \<and> b1 \<and> b0)
       else if b4 then \<not> b3 \<or> (\<not> b2 \<and> \<not> (b1 \<and> b0))
       else b3 \<or> b2 \<or> b1 \<or> b0))"
  by (cases b0; cases b1; cases b2; cases b3; cases b4; cases b5; cases b6; cases b7;
      simp add: is_upper_def code_def)

lemma lower_code [code]:
  "lower (Char b0 b1 b2 b3 b4 b5 b6 b7) =
     (if is_upper (Char b0 b1 b2 b3 b4 b5 b6 b7) then Char b0 b1 b2 b3 b4 True b6 b7
      else Char b0 b1 b2 b3 b4 b5 b6 b7)"
  by (cases b0; cases b1; cases b2; cases b3; cases b4; cases b5; cases b6; cases b7;
      simp add: lower_def is_upper_def code_def char_of_def bit_iff_odd_drop_bit)

lemma is_word_code [code]:
  "is_word (Char b0 b1 b2 b3 b4 b5 b6 b7) =
     (if b7 then
        (if b6 then \<not> (b4 \<and> \<not> b3 \<and> b2 \<and> b1 \<and> b0)
         else b5 \<and> (if b4 then (if b3 then (if b2 then \<not> (b1 \<and> b0) else b1 \<noteq> b0)
                                 else (if b2 then \<not> b1 \<and> b0 else b1))
                    else b3 \<and> \<not> b2 \<and> b1 \<and> \<not> b0))
      else if b6 then
        (if b4 then \<not> b3 \<or> (if b2 then b1 \<and> b0 \<and> \<not> b5 else \<not> (b1 \<and> b0))
         else b3 \<or> b2 \<or> b1 \<or> b0)
      else b5 \<and> b4 \<and> (\<not> b3 \<or> (\<not> b2 \<and> \<not> b1)))"
  by (cases b0; cases b1; cases b2; cases b3; cases b4; cases b5; cases b6; cases b7;
      simp add: is_word_def code_def)

section \<open>Regular expressions with backtracking\<close>

datatype atom = Lit char | OneOf string | Space | NonSpace | Digit | AnyChar

fun atom_ok :: "atom \<Rightarrow> char \<Rightarrow> bool" where
  "atom_ok (Lit l) c = (lower c = lower l)"
| "atom_ok (OneOf ls) c = (lower c \<in> set (map lower ls))"
| "atom_ok Space c = is_space c"
| "atom_ok NonSpace c = (\<not> is_space c)"
| "atom_ok Digit c = is_digit c"
| "atom_ok AnyChar c = True"

datatype re = Eps | Atom atom | Seq re re | Alt re re | Star atom | LazyStar atom
  | Group string re | Ahead re | NotBehind char | WordB | EndZ | EndDollar

text \<open>
  A state of the search: the character before the current position (for \<open>\b\<close> and the
  look-behind), the text from the current position on, and the groups closed so far. A
  group is kept as its span, written as the pair of the text from its start and the text
  from its end.
\<close>

record mstate =
  prev :: "char option"
  rest :: string
  groups :: "(string \<times> string \<times> string) list"

fun star_greedy :: "atom \<Rightarrow> char option \<Rightarrow> string \<Rightarrow> (char option \<times> string) list" where
  "star_greedy a p [] = [(p, [])]"
| "star_greedy a p (c # cs) =
     (if atom_ok a c then star_greedy a (Some c) cs @ [(p, c # cs)] else [(p, c # cs)])"

fun star_lazy :: "atom \<Rightarrow> char option \<Rightarrow> string \<Rightarrow> (char option \<times> string) list" where
  "star_lazy a p [] = [(p, [])]"
| "star_lazy a p (c # cs) =
     (p, c # cs) # (if atom_ok a c then star_lazy a (Some c) cs else [])"

definition word_opt :: "char option \<Rightarrow> bool" where
  "word_opt p = (case p of None \<Rightarrow> False | Some c \<Rightarrow> is_word c)"

definition move :: "mstate \<Rightarrow> char option \<times> string \<Rightarrow> mstate" where
  "move s pt = s\<lparr>prev := fst pt, rest := snd pt\<rparr>"

fun matches :: "re \<Rightarrow> mstate \<Rightarrow> mstate list" where
  "matches Eps s = [s]"
| "matches (Atom a) s =
     (case rest s of [] \<Rightarrow> []
      | c # cs \<Rightarrow> if atom_ok a c then [move s (Some c, cs)] else [])"
| "matches (Seq r1 r2) s = concat (map (matches r2) (matches r1 s))"
| "matches (Alt r1 r2) s = matches r1 s @ matches r2 s"
| "matches (Star a) s = map (move s) (star_greedy a (prev s) (rest s))"
| "matches (LazyStar a) s = map (move s) (star_lazy a (prev s) (rest s))"
| "matches (Group n r) s =
     map (\<lambda>s'. s'\<lparr>groups := (n, rest s, rest s') # groups s'\<rparr>) (matches r s)"
| "matches (Ahead r) s = (if matches r s = [] then [] else [s])"
| "matches (NotBehind c) s = (if prev s = Some c then [] else [s])"
| "matches WordB s =
     (if word_opt (prev s) \<noteq> word_opt (case rest s of [] \<Rightarrow> None | c # _ \<Rightarrow> Some c)
      then [s] else [])"
| "matches EndZ s = (if rest s = [] then [s] else [])"
| "matches EndDollar s = (if rest s = [] \<or> rest s = [CHR 10] then [s] else [])"


text \<open>
  \<open>re.finditer\<close> and \<open>re.sub\<close> scan the text from left to right: at each position the
  first result of the backtracking search is the match, and the scan goes on behind it.
  None of the patterns of this program matches the empty string; the branch for an empty
  match (step over one character) only makes the scan total.
\<close>

definition search_at :: "re \<Rightarrow> char option \<Rightarrow> string \<Rightarrow> mstate option" where
  "search_at r p t =
     (case matches r \<lparr>prev = p, rest = t, groups = []\<rparr> of [] \<Rightarrow> None | m # _ \<Rightarrow> Some m)"

function finditer_from :: "re \<Rightarrow> char option \<Rightarrow> string \<Rightarrow> mstate list" where
  "finditer_from r p t =
     (case search_at r p t of
        None \<Rightarrow> (case t of [] \<Rightarrow> [] | c # cs \<Rightarrow> finditer_from r (Some c) cs)
      | Some m \<Rightarrow>
          m # (if length (rest m) < length t then finditer_from r (prev m) (rest m)
               else (case t of [] \<Rightarrow> [] | c # cs \<Rightarrow> finditer_from r (Some c) cs)))"
  by pat_completeness auto
termination
  by (relation "measure (\<lambda>(r, p, t). length t)") auto

definition finditer :: "re \<Rightarrow> string \<Rightarrow> mstate list" where
  "finditer r t = finditer_from r None t"

function sub_from :: "re \<Rightarrow> (mstate \<Rightarrow> string) \<Rightarrow> char option \<Rightarrow> string \<Rightarrow> string" where
  "sub_from r repl p t =
     (case search_at r p t of
        None \<Rightarrow> (case t of [] \<Rightarrow> [] | c # cs \<Rightarrow> c # sub_from r repl (Some c) cs)
      | Some m \<Rightarrow>
          repl m @ (if length (rest m) < length t then sub_from r repl (prev m) (rest m)
                    else (case t of [] \<Rightarrow> [] | c # cs \<Rightarrow> c # sub_from r repl (Some c) cs)))"
  by pat_completeness auto
termination
  by (relation "measure (\<lambda>(r, repl, p, t). length t)") auto

definition re_sub :: "re \<Rightarrow> (mstate \<Rightarrow> string) \<Rightarrow> string \<Rightarrow> string" where
  "re_sub r repl t = sub_from r repl None t"

definition span :: "string \<Rightarrow> string \<Rightarrow> string" where
  "span a b = take (length a - length b) a"

definition group :: "mstate \<Rightarrow> string \<Rightarrow> string" where
  "group m n = (case map_of (groups m) n of None \<Rightarrow> [] | Some (a, b) \<Rightarrow> span a b)"

subsection \<open>Pattern notation\<close>

definition cat :: "re list \<Rightarrow> re" where
  "cat rs = foldr Seq rs Eps"

definition lit :: "string \<Rightarrow> re" where
  "lit w = cat (map (\<lambda>c. Atom (Lit c)) w)"

definition Opt :: "re \<Rightarrow> re" where
  "Opt r = Alt r Eps"

definition Plus :: "atom \<Rightarrow> re" where
  "Plus a = Seq (Atom a) (Star a)"

definition ws :: re where
  "ws = Star Space"

section \<open>The patterns of the program\<close>

text \<open>
  The character class after a marker is written \<open>[:\<dots>]\<close> in the source, with the colon and
  the three characters U+00EF, U+00BC and U+0161; the last one lies outside the modelled
  range. All patterns but \<open>[ \t]+\<close> are compiled with \<open>re.IGNORECASE\<close>, and \<open>[ \t]\<close> has
  no cased character.
\<close>

definition colon :: re where
  "colon = Atom (OneOf [CHR '':'', CHR 0xEF, CHR 0xBC])"

definition letterABCD :: re where
  "letterABCD = Atom (OneOf ''ABCD'')"

definition question_line :: re where
  "question_line = cat [lit ''QUESTION'', ws, Opt colon, ws, Group ''num'' (Plus Digit), ws,
     Group ''q'' (LazyStar AnyChar)]"

definition option_line :: "string \<Rightarrow> re \<Rightarrow> re" where
  "option_line k nxt = cat [lit ''Option'', ws, lit k, ws, colon, ws,
     Group k (LazyStar AnyChar), Ahead (Seq ws nxt)]"

definition option_marker :: "string \<Rightarrow> re" where
  "option_marker k = cat [lit ''Option'', ws, lit k, ws, colon]"

definition answer_marker :: re where
  "answer_marker = cat [lit ''Correct'', ws, lit ''Answer'', ws, colon]"

definition answer_line :: re where
  "answer_line = cat [answer_marker, ws, Group ''ans'' letterABCD, ws]"

definition next_question :: re where
  "next_question = cat [lit ''Q'', Opt (lit ''UESTION''), ws, Opt colon, ws, Plus Digit]"

definition explanation_line :: re where
  "explanation_line = cat [lit ''Explanation/Reference'', ws, colon, ws,
     Group ''exp'' (LazyStar AnyChar), Ahead (Alt (Seq ws next_question) EndZ)]"

definition QUESTION_BLOCK :: re where
  "QUESTION_BLOCK = cat [question_line,
     option_line ''A'' (option_marker ''B''),
     option_line ''B'' (option_marker ''C''),
     option_line ''C'' (option_marker ''D''),
     option_line ''D'' answer_marker,
     answer_line,
     explanation_line]"

definition url :: re where
  "url = cat [lit ''http'', Opt (lit ''s''), lit ''://'', Plus NonSpace]"

definition CLEAN_CORRECT_IN_OPTION :: re where
  "CLEAN_CORRECT_IN_OPTION = cat [ws, answer_marker, ws, letterABCD, ws, EndDollar]"

definition URL_TRAILER :: re where
  "URL_TRAILER = cat [url, ws, EndDollar]"

section \<open>Helpers on strings\<close>

definition strip :: "string \<Rightarrow> string" where
  "strip s = rev (dropWhile is_space (rev (dropWhile is_space s)))"

definition clean :: "string \<Rightarrow> string" where
  "clean s = strip (filter (\<lambda>c. c \<noteq> CHR 13) s)"

text \<open>
  \<open>str.upper\<close>: the sharp s becomes \<open>SS\<close>; the micro sign and the y with diaeresis have
  their upper-case forms above 255 and are left as they are here. The program applies it
  to the answer letter only.
\<close>

definition upper1 :: "char \<Rightarrow> string" where
  "upper1 c = (let n = code c in
     if n = 223 then ''SS''
     else if (97 \<le> n \<and> n \<le> 122) \<or> (224 \<le> n \<and> n \<le> 254 \<and> n \<noteq> 247) then [char_of (n - 32)]
     else [c])"

definition upper :: "string \<Rightarrow> string" where
  "upper s = concat (map upper1 s)"

lemma upper1_code [code]:
  "upper1 (Char b0 b1 b2 b3 b4 b5 b6 b7) =
     (if b7 \<and> b6 \<and> \<not> b5 \<and> b4 \<and> b3 \<and> b2 \<and> b1 \<and> b0 then ''SS''
      else if b6 \<and> b5 \<and>
        (if b7 then \<not> (b4 \<and> b2 \<and> b1 \<and> b0)
         else if b4 then \<not> b3 \<or> (\<not> b2 \<and> \<not> (b1 \<and> b0))
         else b3 \<or> b2 \<or> b1 \<or> b0)
      then [Char b0 b1 b2 b3 b4 False b6 b7]
      else [Char b0 b1 b2 b3 b4 b5 b6 b7])"
  by (cases b0; cases b1; cases b2; cases b3; cases b4; cases b5; cases b6; cases b7;
      simp add: upper1_def code_def char_of_def bit_iff_odd_drop_bit)

text \<open>\<open>int\<close> on a string of decimal digits.\<close>

definition digit_val :: "char \<Rightarrow> int" where
  "digit_val c = int (code c) - 48"

definition py_int :: "string \<Rightarrow> int" where
  "py_int ds = foldl (\<lambda>a c. 10 * a + digit_val c) 0 ds"

section \<open>Normalisation\<close>

definition select_prompt :: re where
  "select_prompt = cat [WordB, lit ''Select'', ws, lit ''one'', ws, lit '':'', ws]"

definition markers :: "re list" where
  "markers = [
     cat [lit ''QUESTION'', ws, Opt colon, ws, Plus Digit],
     option_marker ''A'',
     option_marker ''B'',
     option_marker ''C'',
     option_marker ''D'',
     cat [answer_marker, ws, letterABCD],
     cat [lit ''Explanation/Reference'', ws, colon]]"

definition own_line :: "string \<Rightarrow> re \<Rightarrow> string" where
  "own_line t pat =
     re_sub (Seq (NotBehind (CHR 10)) (Group ''1'' pat)) (\<lambda>m. CHR 10 # group m ''1'') t"

definition normalize_text :: "string \<Rightarrow> string" where
  "normalize_text txt =
     (let t = map (\<lambda>c. if c = CHR 12 then CHR 10 else c) txt;
          t = re_sub select_prompt (\<lambda>m. []) t;
          t = foldl own_line t markers;
          t = re_sub (Plus (OneOf [CHR '' '', CHR 9])) (\<lambda>m. '' '') t;
          t = re_sub (cat [lit [CHR 10], url, ws, Ahead (lit [CHR 10])]) (\<lambda>m. [CHR 10]) t;
          t = re_sub (cat [url, ws, EndDollar]) (\<lambda>m. []) t
      in t)"

section \<open>Question records and the parser\<close>

record MCQ =
  number :: int
  question :: string
  options :: "(string \<times> string) list"
  answer :: string
  explanation :: string

definition clean_option :: "string \<Rightarrow> string" where
  "clean_option v =
     strip (re_sub URL_TRAILER (\<lambda>m. []) (strip (re_sub CLEAN_CORRECT_IN_OPTION (\<lambda>m. []) v)))"

definition mcq_of_match :: "mstate \<Rightarrow> MCQ" where
  "mcq_of_match m = \<lparr>
     number = py_int (group m ''num''),
     question = clean (group m ''q''),
     options = map (\<lambda>(k, v). (k, clean_option v))
                 (map (\<lambda>letter. (letter, clean (group m letter))) [''A'', ''B'', ''C'', ''D'']),
     answer = upper (strip (group m ''ans'')),
     explanation = clean (group m ''exp'')\<rparr>"

definition parse_questions_from_text :: "string \<Rightarrow> MCQ list" where
  "parse_questions_from_text txt =
     sort_key number (map mcq_of_match (finditer QUESTION_BLOCK (normalize_text txt)))"

section \<open>Properties of the parser\<close>

text \<open>
  Claim C4. For every input text, the records returned by \<open>parse_questions_from_text\<close>
  are in ascending order of their \<open>number\<close> field, whatever the order of the blocks in
  the document.
\<close>

theorem parse_sorted_by_number:
  "sorted (map number (parse_questions_from_text txt))"
  unfolding parse_questions_from_text_def by (rule sorted_sort_key)

end
